theory Spec2Isabelle
  imports Main "HOL-Library.Char_ord" "HOL-Library.List_Lexorder"
begin

section \<open>Python values\<close>

text \<open>
  The configuration and the Kubernetes resource objects of \<^verbatim>\<open>storage_manifests.py\<close>
  are untyped Python documents: \<^verbatim>\<open>None\<close>, booleans, integers, strings, lists and
  dictionaries with string keys. A dictionary keeps its insertion order, so it is an
  association list; Python keeps its keys distinct. A character of a \<^typ>\<open>string\<close>
  stands for the code point of the same number, so strings range over the code points
  below 256. Floating point values are left out.
\<close>

datatype pyval =
    PNone
  | PBool bool
  | PInt int
  | PStr string
  | PList "pyval list"
  | PDict "(string \<times> pyval) list"

type_synonym pydict = "(string \<times> pyval) list"

datatype error = KeyError string | TypeError | AttributeError

text \<open>\<^verbatim>\<open>d.get(k)\<close> without the default: \<open>None\<close> of the option type is the absent key.\<close>

definition dict_get :: "pydict \<Rightarrow> string \<Rightarrow> pyval option" where
  "dict_get d k = map_of d k"

text \<open>\<^verbatim>\<open>d.get(k)\<close> as Python returns it: \<^verbatim>\<open>None\<close> for an absent key.\<close>

definition py_get :: "pydict \<Rightarrow> string \<Rightarrow> pyval" where
  "py_get d k = (case dict_get d k of None \<Rightarrow> PNone | Some v \<Rightarrow> v)"

text \<open>\<^verbatim>\<open>d[k] = v\<close>: an existing key keeps its place, a new key goes to the end.\<close>

fun dict_set :: "pydict \<Rightarrow> string \<Rightarrow> pyval \<Rightarrow> pydict" where
  "dict_set [] k v = [(k, v)]"
| "dict_set ((k', v') # d) k v =
     (if k' = k then (k, v) # d else (k', v') # dict_set d k v)"

text \<open>\<^verbatim>\<open>del d[k]\<close> for a key that is there, and the removal done by \<^verbatim>\<open>d.pop(k, None)\<close>.\<close>

definition dict_del :: "pydict \<Rightarrow> string \<Rightarrow> pydict" where
  "dict_del d k = filter (\<lambda>kv. fst kv \<noteq> k) d"

text \<open>\<^verbatim>\<open>d.update(**e)\<close>: the items of \<open>e\<close> are stored one after the other.\<close>

fun dict_update :: "pydict \<Rightarrow> pydict \<Rightarrow> pydict" where
  "dict_update d [] = d"
| "dict_update d ((k, v) # e) = dict_update (dict_set d k v) e"

definition keys :: "pydict \<Rightarrow> string list" where
  "keys d = map fst d"

text \<open>Python's truth value of an object, as \<^verbatim>\<open>not value\<close> tests it.\<close>

fun truthy :: "pyval \<Rightarrow> bool" where
  "truthy PNone = False"
| "truthy (PBool b) = b"
| "truthy (PInt i) = (i \<noteq> 0)"
| "truthy (PStr s) = (s \<noteq> [])"
| "truthy (PList xs) = (xs \<noteq> [])"
| "truthy (PDict d) = (d \<noteq> [])"

text \<open>\<^verbatim>\<open>isinstance(v, dict)\<close>.\<close>

fun is_dict :: "pyval \<Rightarrow> bool" where
  "is_dict (PDict d) = True"
| "is_dict _ = False"

text \<open>
  \<^verbatim>\<open>v[k]\<close> with a string key: a dictionary raises \<^verbatim>\<open>KeyError\<close> for an absent key,
  every other value raises \<^verbatim>\<open>TypeError\<close>.
\<close>

fun subscript :: "pyval \<Rightarrow> string \<Rightarrow> error + pyval" where
  "subscript (PDict d) k = (case dict_get d k of None \<Rightarrow> Inl (KeyError k) | Some v \<Rightarrow> Inr v)"
| "subscript _ k = Inl TypeError"

text \<open>\<^verbatim>\<open>v[k] = x\<close> with a string key: only a dictionary supports it.\<close>

fun setitem :: "pyval \<Rightarrow> string \<Rightarrow> pyval \<Rightarrow> error + pyval" where
  "setitem (PDict d) k x = Inr (PDict (dict_set d k x))"
| "setitem _ k x = Inl TypeError"

text \<open>\<^verbatim>\<open>v[k1][k2]...[kn]\<close>, read from left to right; the first failing step raises.\<close>

fun path_get :: "pyval \<Rightarrow> string list \<Rightarrow> error + pyval" where
  "path_get v [] = Inr v"
| "path_get v (k # ks) = (case subscript v k of Inl e \<Rightarrow> Inl e | Inr c \<Rightarrow> path_get c ks)"

text \<open>
  \<^verbatim>\<open>v[k1]...[kn] = x\<close>: the prefix is read from left to right, the last step stores.
  The objects are trees, so the in-place store is the rebuilt document.
\<close>

fun path_set :: "pyval \<Rightarrow> string list \<Rightarrow> pyval \<Rightarrow> error + pyval" where
  "path_set v [] x = Inr x"
| "path_set v [k] x = setitem v k x"
| "path_set v (k # ks) x =
     (case subscript v k of
        Inl e \<Rightarrow> Inl e
      | Inr c \<Rightarrow> (case path_set c ks x of Inl e \<Rightarrow> Inl e | Inr c' \<Rightarrow> setitem v k c'))"

section \<open>The effective configuration\<close>

record integrator =
  is_ready :: bool
  vsphere_ip :: pyval
  user :: pyval
  password :: pyval
  datacenter :: pyval

record kube_control =
  kc_is_ready :: bool
  registry_location :: pyval

text \<open>The control-plane relation: the name of its application and its units.\<close>

record relation =
  app_name :: string
  units :: "string list"

text \<open>
  What \<^verbatim>\<open>VsphereStorageManifests.config\<close> reads: the two integrations, the
  control-plane relation (\<^verbatim>\<open>None\<close> when there is none) and the charm's
  \<^verbatim>\<open>available_data\<close>.
\<close>

record sources =
  src_integrator :: integrator
  src_kube_control :: kube_control
  src_control_plane :: "relation option"
  available_data :: pydict

text \<open>The dictionary before the charm's data is laid over it (lines 148 to 161).\<close>

definition relation_config :: "sources \<Rightarrow> pydict" where
  "relation_config s =
     (let config = [];
          config = (if is_ready (src_integrator s)
                    then [(''server'', vsphere_ip (src_integrator s)),
                          (''username'', user (src_integrator s)),
                          (''password'', password (src_integrator s)),
                          (''datacenter'', datacenter (src_integrator s))]
                    else config);
          config = (if kc_is_ready (src_kube_control s)
                    then dict_set config ''image-registry'' (registry_location (src_kube_control s))
                    else config)
      in case src_control_plane s of
           None \<Rightarrow> config
         | Some cp \<Rightarrow>
             dict_set
               (dict_set config ''control-node-selector''
                  (PDict [(''juju-application'', PStr (app_name cp))]))
               ''replicas'' (PInt (int (length (units cp)))))"

definition merged_config :: "sources \<Rightarrow> pydict" where
  "merged_config s = dict_update (relation_config s) (available_data s)"

text \<open>
  The loop of lines 165 to 167 runs over a copy of the dictionary and deletes from the
  dictionary itself.
\<close>

definition is_empty_value :: "pyval \<Rightarrow> bool" where
  "is_empty_value v = (v = PStr [] \<or> v = PNone)"

fun drop_empty :: "pydict \<Rightarrow> pydict \<Rightarrow> pydict" where
  "drop_empty [] config = config"
| "drop_empty ((key, value) # items) config =
     drop_empty items (if is_empty_value value then dict_del config key else config)"

text \<open>What the loop leaves of an entry: nothing when the value is empty.\<close>

definition normalized :: "pyval option \<Rightarrow> pyval option" where
  "normalized x = (case x of None \<Rightarrow> None | Some v \<Rightarrow> if is_empty_value v then None else Some v)"

text \<open>\<^verbatim>\<open>config["release"] = config.pop("storage-release", None)\<close>.\<close>

definition rename_release :: "pydict \<Rightarrow> pydict" where
  "rename_release config =
     (let popped = py_get config ''storage-release'';
          config = dict_del config ''storage-release''
      in dict_set config ''release'' popped)"

definition config :: "sources \<Rightarrow> pydict" where
  "config s =
     (let config = merged_config s;
          config = drop_empty config config
      in rename_release config)"

section \<open>The readiness check\<close>

text \<open>
  \<^verbatim>\<open>VsphereStorageManifests.evaluate\<close>: the loop over \<^verbatim>\<open>props\<close> returns the message
  of the first property whose value is falsy; falling off the end returns \<^verbatim>\<open>None\<close>.
\<close>

definition props :: "string list" where
  "props = [''server'', ''username'', ''password'', ''datacenter'', ''control-node-selector'']"

definition waiting_for :: "string \<Rightarrow> string" where
  "waiting_for prop = ''Storage manifests waiting for definition of '' @ prop"

fun evaluate_loop :: "pydict \<Rightarrow> string list \<Rightarrow> string option" where
  "evaluate_loop cfg [] = None"
| "evaluate_loop cfg (prop # rest) =
     (let value = py_get cfg prop
      in if \<not> truthy value then Some (waiting_for prop) else evaluate_loop cfg rest)"

definition evaluate :: "pydict \<Rightarrow> string option" where
  "evaluate cfg = evaluate_loop cfg props"

section \<open>The hash of the configuration\<close>

subsection \<open>Text of an integer, bytes of a text\<close>

definition digit_char :: "nat \<Rightarrow> char" where
  "digit_char n = char_of (48 + n)"

fun show_nat :: "nat \<Rightarrow> string" where
  "show_nat n = (if n < 10 then [digit_char n] else show_nat (n div 10) @ [digit_char (n mod 10)])"

declare show_nat.simps [simp del]

definition show_int :: "int \<Rightarrow> string" where
  "show_int i = (if i < 0 then CHR ''-'' # show_nat (nat (- i)) else show_nat (nat i))"

text \<open>
  \<^verbatim>\<open>str.encode()\<close>: UTF-8. A code point below 128 is one byte, one from 128 to 255
  is two bytes.
\<close>

definition utf8_char :: "char \<Rightarrow> char list" where
  "utf8_char c =
     (let n = (of_char c :: nat)
      in if n < 128 then [c] else [char_of (192 + n div 64), char_of (128 + n mod 64)])"

definition utf8_encode :: "string \<Rightarrow> char list" where
  "utf8_encode s = concat (map utf8_char s)"

subsection \<open>Serialisation\<close>

definition hex_digit :: "nat \<Rightarrow> char" where
  "hex_digit n = (if n < 10 then char_of (48 + n) else char_of (87 + n))"

text \<open>
  \<^verbatim>\<open>py_encode_basestring_ascii\<close>: the quote and the backslash are escaped with a
  backslash; every other character from the space to the tilde stands for itself; the
  controls \<^verbatim>\<open>\b \f \n \r \t\<close> have short escapes; every other code point is
  \<^verbatim>\<open>\uXXXX\<close> with four lower-case hexadecimal digits.
\<close>

definition escape_char :: "char \<Rightarrow> string" where
  "escape_char c =
     (let n = (of_char c :: nat)
      in if c = CHR 0x22 then [CHR 0x5C, CHR 0x22]
         else if c = CHR 0x5C then [CHR 0x5C, CHR 0x5C]
         else if 32 \<le> n \<and> n \<le> 126 then [c]
         else if n = 8 then [CHR 0x5C, CHR ''b'']
         else if n = 12 then [CHR 0x5C, CHR ''f'']
         else if n = 10 then [CHR 0x5C, CHR ''n'']
         else if n = 13 then [CHR 0x5C, CHR ''r'']
         else if n = 9 then [CHR 0x5C, CHR ''t'']
         else [CHR 0x5C, CHR ''u'', CHR ''0'', CHR ''0'', hex_digit (n div 16), hex_digit (n mod 16)])"

definition encode_basestring_ascii :: "string \<Rightarrow> string" where
  "encode_basestring_ascii s = [CHR 0x22] @ concat (map escape_char s) @ [CHR 0x22]"

text \<open>\<^verbatim>\<open>sep.join(parts)\<close>.\<close>

fun join :: "string \<Rightarrow> string list \<Rightarrow> string" where
  "join sep [] = []"
| "join sep [x] = x"
| "join sep (x # xs) = x @ sep @ join sep xs"

text \<open>
  \<^verbatim>\<open>json.dumps(v, sort_keys=True)\<close> with the default separators: the items of a
  dictionary are written in the order of \<^verbatim>\<open>sorted(d.items())\<close>, which for distinct
  keys is the order of the keys, strings being compared by code points.
\<close>

fun json_dumps :: "pyval \<Rightarrow> string" where
  "json_dumps PNone = ''null''"
| "json_dumps (PBool b) = (if b then ''true'' else ''false'')"
| "json_dumps (PInt i) = show_int i"
| "json_dumps (PStr s) = encode_basestring_ascii s"
| "json_dumps (PList xs) = ''['' @ join '', '' (map json_dumps xs) @ '']''"
| "json_dumps (PDict d) =
     ''{'' @ join '', ''
        (map (\<lambda>(k, v). encode_basestring_ascii k @ '': '' @ json_dumps v) (sort_key fst d)) @ ''}''"

subsection \<open>The hash\<close>

text \<open>
  \<^verbatim>\<open>VsphereStorageManifests.hash\<close>. The parameter \<open>md5\<close> is the digest of the
  bytes, as the integer that its hexadecimal text denotes.
\<close>

definition config_hash :: "(char list \<Rightarrow> nat) \<Rightarrow> pydict \<Rightarrow> nat" where
  "config_hash md5 cfg = md5 (utf8_encode (json_dumps (PDict cfg)))"

definition hash :: "(char list \<Rightarrow> nat) \<Rightarrow> sources \<Rightarrow> nat" where
  "hash md5 s = config_hash md5 (config s)"

text \<open>Python keeps the keys of a dictionary distinct, at every depth.\<close>

fun distinct_keys :: "pyval \<Rightarrow> bool" where
  "distinct_keys (PDict d) = (distinct (keys d) \<and> (\<forall>(k, v) \<in> set d. distinct_keys v))"
| "distinct_keys (PList xs) = (\<forall>x \<in> set xs. distinct_keys x)"
| "distinct_keys _ = True"

text \<open>
  Two values with the same content: equal up to the order of the items of their
  dictionaries, at every depth.
\<close>

fun same_content :: "pyval \<Rightarrow> pyval \<Rightarrow> bool" where
  "same_content (PDict d) (PDict d') =
     (set (keys d) = set (keys d') \<and>
      (\<forall>(k, v) \<in> set d. \<forall>(k', v') \<in> set d'. k = k' \<longrightarrow> same_content v v'))"
| "same_content (PList xs) (PList ys) = list_all2 same_content xs ys"
| "same_content v w = (v = w)"

section \<open>The patch of the controller Deployment\<close>

text \<open>
  The test at the head of \<^verbatim>\<open>UpdateDeployment.__call__\<close>. \<^verbatim>\<open>obj.get\<close> needs a
  dictionary; \<^verbatim>\<open>and\<close> reads \<^verbatim>\<open>obj["metadata"]["name"]\<close> only when the kind is
  \<^verbatim>\<open>"Deployment"\<close>.
\<close>

definition is_target :: "pyval \<Rightarrow> error + bool" where
  "is_target obj =
     (case obj of
        PDict d \<Rightarrow>
          (if py_get d ''kind'' = PStr ''Deployment''
           then (case path_get obj [''metadata'', ''name''] of
                   Inl e \<Rightarrow> Inl e
                 | Inr n \<Rightarrow> Inr (n = PStr ''vsphere-csi-controller''))
           else Inr False)
      | _ \<Rightarrow> Inl AttributeError)"

text \<open>
  \<^verbatim>\<open>UpdateDeployment.__call__\<close> changes the object in place and returns nothing: the
  model returns the object as the call leaves it, and the exception when one is raised.
  The warning of line 49 reads \<^verbatim>\<open>obj['spec']['replicas']\<close>, which can raise.
\<close>

definition update_deployment :: "pydict \<Rightarrow> pyval \<Rightarrow> pyval \<times> error option" where
  "update_deployment cfg obj =
     (case is_target obj of
        Inl e \<Rightarrow> (obj, Some e)
      | Inr False \<Rightarrow> (obj, None)
      | Inr True \<Rightarrow>
          (let node_selector = py_get cfg ''control-node-selector''
           in if \<not> is_dict node_selector then (obj, None)
              else
                (case path_set obj [''spec'', ''template'', ''spec'', ''nodeSelector''] node_selector of
                   Inl e \<Rightarrow> (obj, Some e)
                 | Inr obj1 \<Rightarrow>
                     (let replicas = py_get cfg ''replicas''
                      in if \<not> truthy replicas
                         then (case path_get obj1 [''spec'', ''replicas''] of
                                 Inl e \<Rightarrow> (obj1, Some e)
                               | Inr r \<Rightarrow> (obj1, None))
                         else (case path_set obj1 [''spec'', ''replicas''] replicas of
                                 Inl e \<Rightarrow> (obj1, Some e)
                               | Inr obj2 \<Rightarrow> (obj2, None))))))"

section \<open>The secret\<close>

text \<open>
  What an f-string puts for \<^verbatim>\<open>{v}\<close>: \<^verbatim>\<open>str(v)\<close>. The text of a list or of a
  dictionary is Python's \<^verbatim>\<open>repr\<close>, taken as the parameter \<open>repr\<close>.
\<close>

fun py_str :: "(pyval \<Rightarrow> string) \<Rightarrow> pyval \<Rightarrow> string" where
  "py_str repr PNone = ''None''"
| "py_str repr (PBool b) = (if b then ''True'' else ''False'')"
| "py_str repr (PInt i) = show_int i"
| "py_str repr (PStr s) = s"
| "py_str repr v = repr v"

text \<open>
  \<^verbatim>\<open>base64.b64encode\<close> (RFC 4648): three bytes give four characters of the alphabet
  \<^verbatim>\<open>A-Z a-z 0-9 + /\<close>; one or two last bytes are padded with \<^verbatim>\<open>=\<close>.
\<close>

definition b64_char :: "nat \<Rightarrow> char" where
  "b64_char n =
     (if n < 26 then char_of (65 + n)
      else if n < 52 then char_of (97 + (n - 26))
      else if n < 62 then char_of (48 + (n - 52))
      else if n = 62 then CHR ''+'' else CHR ''/'')"

fun b64encode :: "char list \<Rightarrow> string" where
  "b64encode [] = []"
| "b64encode [a] =
     (let x = (of_char a :: nat)
      in [b64_char (x div 4), b64_char (x mod 4 * 16), CHR ''='', CHR ''=''])"
| "b64encode [a, b] =
     (let x = (of_char a :: nat); y = (of_char b :: nat)
      in [b64_char (x div 4), b64_char (x mod 4 * 16 + y div 16),
          b64_char (y mod 16 * 4), CHR ''=''])"
| "b64encode (a # b # c # rest) =
     (let x = (of_char a :: nat); y = (of_char b :: nat); z = (of_char c :: nat)
      in [b64_char (x div 4), b64_char (x mod 4 * 16 + y div 16),
          b64_char (y mod 16 * 4 + z div 64), b64_char (z mod 64)] @ b64encode rest)"

definition SECRET_NAME :: string where
  "SECRET_NAME = ''vsphere-config-secret''"

definition SECRET_DATA :: string where
  "SECRET_DATA = ''csi-vsphere.conf''"

definition dq :: string where
  "dq = [CHR 0x22]"

definition nl :: string where
  "nl = [CHR 0x0A]"

text \<open>The f-string of lines 68 to 77, before \<^verbatim>\<open>.encode()\<close>.\<close>

definition secret_config ::
  "(pyval \<Rightarrow> string) \<Rightarrow> string \<Rightarrow> pyval \<Rightarrow> pyval \<Rightarrow> pyval \<Rightarrow> pyval \<Rightarrow> string" where
  "secret_config repr model_uuid server usr passwd dc =
     ''[Global]'' @ nl @
     ''cluster-id = '' @ dq @ model_uuid @ dq @ nl @
     nl @
     ''[VirtualCenter '' @ dq @ py_str repr server @ dq @ '']'' @ nl @
     ''insecure-flag = '' @ dq @ ''true'' @ dq @ nl @
     ''user = '' @ dq @ py_str repr usr @ dq @ nl @
     ''password = '' @ dq @ py_str repr passwd @ dq @ nl @
     ''port = '' @ dq @ ''443'' @ dq @ nl @
     ''datacenters = '' @ dq @ py_str repr dc @ dq @ nl"

text \<open>
  The addition returns \<^verbatim>\<open>None\<close> (no object) when one of the four values is
  \<^verbatim>\<open>None\<close>, which is what \<^verbatim>\<open>config.get\<close> gives for an absent key too.
\<close>

definition create_secret :: "(pyval \<Rightarrow> string) \<Rightarrow> string \<Rightarrow> pydict \<Rightarrow> pyval option" where
  "create_secret repr model_uuid cfg =
     (let secret = map (py_get cfg) [''username'', ''password'', ''server'', ''datacenter'']
      in if list_ex (\<lambda>s. s = PNone) secret then None
         else
           (case secret of
              [usr, passwd, server, dc] \<Rightarrow>
                Some (PDict
                  [(''apiVersion'', PStr ''v1''),
                   (''kind'', PStr ''Secret''),
                   (''type'', PStr ''Opaque''),
                   (''metadata'', PDict [(''name'', PStr SECRET_NAME)]),
                   (''data'', PDict [(SECRET_DATA,
                      PStr (b64encode (utf8_encode
                        (secret_config repr model_uuid server usr passwd dc))))])])
            | _ \<Rightarrow> None))"

subsection \<open>The encodings lose nothing\<close>




section \<open>Example inputs\<close>

definition spec_example_sources :: sources where
  "spec_example_sources =
     \<lparr>src_integrator = \<lparr>is_ready = True, vsphere_ip = PStr ''10.0.0.1'', user = PStr [],
                          password = PNone, datacenter = PStr ''dc1''\<rparr>,
      src_kube_control = \<lparr>kc_is_ready = False, registry_location = PNone\<rparr>,
      src_control_plane = None,
      available_data = [(''storage-release'', PStr ''1.2.3'')]\<rparr>"

definition charm_release_sources :: sources where
  "charm_release_sources =
     \<lparr>src_integrator = \<lparr>is_ready = False, vsphere_ip = PNone, user = PNone,
                          password = PNone, datacenter = PNone\<rparr>,
      src_kube_control = \<lparr>kc_is_ready = False, registry_location = PNone\<rparr>,
      src_control_plane = None,
      available_data = [(''release'', PStr ''v3.0.0''), (''storage-release'', PStr [])]\<rparr>"

definition charm_replicas_sources :: sources where
  "charm_replicas_sources =
     \<lparr>src_integrator = \<lparr>is_ready = False, vsphere_ip = PNone, user = PNone,
                          password = PNone, datacenter = PNone\<rparr>,
      src_kube_control = \<lparr>kc_is_ready = False, registry_location = PNone\<rparr>,
      src_control_plane = Some \<lparr>app_name = ''kubernetes-control-plane'', units = []\<rparr>,
      available_data = [(''replicas'', PInt 2)]\<rparr>"

definition zero_units_sources :: sources where
  "zero_units_sources =
     \<lparr>src_integrator = \<lparr>is_ready = False, vsphere_ip = PNone, user = PNone,
                          password = PNone, datacenter = PNone\<rparr>,
      src_kube_control = \<lparr>kc_is_ready = False, registry_location = PNone\<rparr>,
      src_control_plane = Some \<lparr>app_name = ''kubernetes-control-plane'', units = []\<rparr>,
      available_data = []\<rparr>"

definition selector_first_sources :: sources where
  "selector_first_sources =
     \<lparr>src_integrator = \<lparr>is_ready = False, vsphere_ip = PNone, user = PNone,
                          password = PNone, datacenter = PNone\<rparr>,
      src_kube_control = \<lparr>kc_is_ready = False, registry_location = PNone\<rparr>,
      src_control_plane = None,
      available_data =
        [(''control-node-selector'', PDict [(''zone'', PStr ''a''), (''rack'', PInt 7)]),
         (''server'', PStr ''vc.example'')]\<rparr>"

definition server_first_sources :: sources where
  "server_first_sources =
     \<lparr>src_integrator = \<lparr>is_ready = False, vsphere_ip = PNone, user = PNone,
                          password = PNone, datacenter = PNone\<rparr>,
      src_kube_control = \<lparr>kc_is_ready = False, registry_location = PNone\<rparr>,
      src_control_plane = None,
      available_data =
        [(''server'', PStr ''vc.example''),
         (''control-node-selector'', PDict [(''rack'', PInt 7), (''zone'', PStr ''a'')])]\<rparr>"

text \<open>A stand-in for the digest in examples: the bytes read as one number.\<close>

definition bytes_number :: "char list \<Rightarrow> nat" where
  "bytes_number bs = foldl (\<lambda>n b. 256 * n + of_char b) 0 bs"

definition server_absent_config :: pydict where
  "server_absent_config =
     [(''username'', PStr ''u''), (''password'', PStr ''p''), (''datacenter'', PStr ''d''),
      (''control-node-selector'', PDict [(''a'', PInt 1)])]"

definition controller_deployment :: pyval where
  "controller_deployment =
     PDict [(''apiVersion'', PStr ''apps/v1''),
            (''kind'', PStr ''Deployment''),
            (''metadata'', PDict [(''name'', PStr ''vsphere-csi-controller'')]),
            (''spec'', PDict [(''replicas'', PInt 1),
                              (''template'', PDict [(''spec'', PDict [(''containers'', PList [])])])])]"

definition service_object :: pyval where
  "service_object =
     PDict [(''apiVersion'', PStr ''v1''),
            (''kind'', PStr ''Service''),
            (''metadata'', PDict [(''name'', PStr ''vsphere-csi-controller'')])]"

definition selector_and_replicas_config :: pydict where
  "selector_and_replicas_config =
     [(''control-node-selector'', PDict [(''juju-application'', PStr ''app1'')]),
      (''replicas'', PInt 3)]"

definition selector_only_config :: pydict where
  "selector_only_config =
     [(''control-node-selector'', PDict [(''juju-application'', PStr ''app1'')])]"

definition malformed_selector_config :: pydict where
  "malformed_selector_config =
     [(''control-node-selector'', PStr ''juju-application=app1''), (''replicas'', PInt 3)]"

definition no_replicas_config :: pydict where
  "no_replicas_config =
     [(''control-node-selector'', PDict [(''juju-application'', PStr ''app1'')]),
      (''replicas'', PInt 0)]"





lemmas example_defs =
  controller_deployment_def selector_and_replicas_config_def selector_only_config_def
  malformed_selector_config_def service_object_def

section \<open>Properties of the dictionaries\<close>

lemma dict_get_set: "dict_get (dict_set d k v) k' = (if k' = k then Some v else dict_get d k')"
  by (induction d) (auto simp: dict_get_def)

lemma dict_get_del: "dict_get (dict_del d k) k' = (if k' = k then None else dict_get d k')"
  by (induction d) (auto simp: dict_get_def dict_del_def)

lemma dict_get_absent: "dict_get d k = None \<longleftrightarrow> k \<notin> set (keys d)"
  by (simp add: dict_get_def keys_def map_of_eq_None_iff)

lemma keys_set: "keys (dict_set d k v) = (if k \<in> set (keys d) then keys d else keys d @ [k])"
proof (induction d)
  case Nil
  show ?case by (simp add: keys_def)
next
  case (Cons p d)
  obtain k' v' where p: "p = (k', v')" by (cases p)
  show ?case using Cons.IH by (simp add: p keys_def)
qed

lemma distinct_set: "distinct (keys d) \<Longrightarrow> distinct (keys (dict_set d k v))"
  by (simp add: keys_set)

lemma distinct_update: "distinct (keys d) \<Longrightarrow> distinct (keys (dict_update d e))"
  by (induction d e rule: dict_update.induct) (auto simp: distinct_set)

lemma distinct_del: "distinct (keys d) \<Longrightarrow> distinct (keys (dict_del d k))"
  by (simp add: keys_def dict_del_def distinct_map_filter)

lemma dict_get_update_absent:
  "k \<notin> set (keys e) \<Longrightarrow> dict_get (dict_update d e) k = dict_get d k"
  by (induction d e rule: dict_update.induct) (auto simp: keys_def dict_get_set)

lemma dict_get_update_present:
  "distinct (keys e) \<Longrightarrow> dict_get e k = Some v \<Longrightarrow> dict_get (dict_update d e) k = Some v"
proof (induction d e rule: dict_update.induct)
  case (1 d)
  then show ?case by (simp add: dict_get_def)
next
  case (2 d k' v' e)
  show ?case
  proof (cases "k' = k")
    case True
    with "2.prems" have "v' = v" "k \<notin> set (keys e)" by (auto simp: dict_get_def keys_def)
    then show ?thesis using True by (simp add: dict_get_update_absent dict_get_set)
  next
    case False
    with "2.prems" have "distinct (keys e)" "dict_get e k = Some v"
      by (auto simp: dict_get_def keys_def)
    then show ?thesis by (simp add: "2.IH")
  qed
qed

section \<open>Properties of the effective configuration\<close>

lemma distinct_relation_config: "distinct (keys (relation_config s))"
  by (simp add: relation_config_def Let_def keys_set split: option.splits) (simp add: keys_def)

lemma distinct_merged_config: "distinct (keys (merged_config s))"
  unfolding merged_config_def by (rule distinct_update[OF distinct_relation_config])

lemma relation_config_keys:
  "set (keys (relation_config s)) \<subseteq>
     {''server'', ''username'', ''password'', ''datacenter'', ''image-registry'',
      ''control-node-selector'', ''replicas''}"
  by (simp add: relation_config_def Let_def keys_set split: option.splits) (simp add: keys_def)

lemma relation_config_no_release:
  "dict_get (relation_config s) ''storage-release'' = None"
  "dict_get (relation_config s) ''release'' = None"
  using relation_config_keys [of s] by (auto simp: dict_get_absent)

lemma dict_get_merged_config:
  "distinct (keys (available_data s)) \<Longrightarrow>
   dict_get (merged_config s) k =
     (case dict_get (available_data s) k of
        None \<Rightarrow> dict_get (relation_config s) k
      | Some v \<Rightarrow> Some v)"
  by (auto simp: merged_config_def dict_get_update_present dict_get_update_absent dict_get_absent
      split: option.splits)

lemma dict_get_drop_empty:
  "dict_get (drop_empty items cfg) k =
     (if \<exists>v. (k, v) \<in> set items \<and> is_empty_value v then None else dict_get cfg k)"
  by (induction items cfg rule: drop_empty.induct) (auto simp: dict_get_del)

lemma dict_get_drop_empty_self:
  assumes "distinct (keys cfg)"
  shows "dict_get (drop_empty cfg cfg) k =
     (case dict_get cfg k of None \<Rightarrow> None | Some v \<Rightarrow> if is_empty_value v then None else Some v)"
proof (cases "dict_get cfg k")
  case None
  then show ?thesis by (simp add: dict_get_drop_empty)
next
  case (Some v)
  then have in_cfg: "(k, v) \<in> set cfg" by (auto simp: dict_get_def dest: map_of_SomeD)
  have uniq: "v' = v" if "(k, v') \<in> set cfg" for v'
    using assms that Some by (simp add: dict_get_def keys_def)
  have "(\<exists>v'. (k, v') \<in> set cfg \<and> is_empty_value v') \<longleftrightarrow> is_empty_value v"
    using in_cfg uniq by blast
  then show ?thesis by (simp add: dict_get_drop_empty Some)
qed

lemma dict_get_rename_release:
  "dict_get (rename_release cfg) k =
     (if k = ''release'' then Some (py_get cfg ''storage-release'')
      else if k = ''storage-release'' then None else dict_get cfg k)"
  by (simp add: rename_release_def Let_def dict_get_set dict_get_del)

lemma dict_get_config:
  "dict_get (config s) k =
     (if k = ''release''
      then Some (case normalized (dict_get (merged_config s) ''storage-release'') of
                   None \<Rightarrow> PNone | Some v \<Rightarrow> v)
      else if k = ''storage-release'' then None
      else normalized (dict_get (merged_config s) k))"
  by (simp add: config_def Let_def dict_get_rename_release py_get_def normalized_def
      dict_get_drop_empty_self[OF distinct_merged_config] split: option.splits)

text \<open>
  Claim C5. For all source data, the effective configuration has no key
  \<^verbatim>\<open>storage-release\<close>; it always has the key \<^verbatim>\<open>release\<close>, whose value is the
  merged value of \<^verbatim>\<open>storage-release\<close> when that is neither \<^verbatim>\<open>""\<close> nor \<^verbatim>\<open>None\<close>,
  and \<^verbatim>\<open>None\<close> otherwise; every other key is kept with its merged value exactly when
  that value is neither \<^verbatim>\<open>""\<close> nor \<^verbatim>\<open>None\<close>.
\<close>

theorem config_post_process:
  "dict_get (config s) ''storage-release'' = None \<and>
   dict_get (config s) ''release'' =
     Some (case normalized (dict_get (merged_config s) ''storage-release'') of
             None \<Rightarrow> PNone | Some v \<Rightarrow> v) \<and>
   (\<forall>k. k \<noteq> ''release'' \<and> k \<noteq> ''storage-release'' \<longrightarrow>
        dict_get (config s) k = normalized (dict_get (merged_config s) k))"
  by (simp add: config_def Let_def dict_get_rename_release py_get_def normalized_def
      dict_get_drop_empty_self[OF distinct_merged_config] split: option.splits)

theorem config_post_process_witness:
  "dict_get (config spec_example_sources) ''storage-release'' = None \<and>
   dict_get (config spec_example_sources) ''release'' = Some (PStr ''1.2.3'') \<and>
   dict_get (config spec_example_sources) ''server'' = Some (PStr ''10.0.0.1'') \<and>
   dict_get (config spec_example_sources) ''username'' = None \<and>
   dict_get (config spec_example_sources) ''password'' = None"
  using config_post_process [of spec_example_sources]
  by (simp add: spec_example_sources_def normalized_def merged_config_def relation_config_def
      dict_get_def is_empty_value_def)

text \<open>
  Claim C9. When the charm's data supplies a key \<^verbatim>\<open>release\<close> and no
  \<^verbatim>\<open>storage-release\<close> value that survives the removal of empty values, the merged
  dictionary holds the charm's \<^verbatim>\<open>release\<close>, and the effective configuration holds
  \<^verbatim>\<open>None\<close> for it.
\<close>

theorem charm_release_overwritten:
  assumes "distinct (keys (available_data s))"
    and "dict_get (available_data s) ''release'' = Some v"
    and "normalized (dict_get (available_data s) ''storage-release'') = None"
  shows "dict_get (merged_config s) ''release'' = Some v \<and>
         dict_get (config s) ''release'' = Some PNone"
proof -
  have "dict_get (merged_config s) ''storage-release'' = dict_get (available_data s) ''storage-release''"
    using assms(1) by (simp add: dict_get_merged_config relation_config_no_release split: option.splits)
  with assms show ?thesis
    by (simp add: dict_get_config dict_get_merged_config)
qed

theorem charm_release_overwritten_witness:
  "dict_get (available_data charm_release_sources) ''release'' = Some (PStr ''v3.0.0'') \<and>
   dict_get (merged_config charm_release_sources) ''release'' = Some (PStr ''v3.0.0'') \<and>
   dict_get (config charm_release_sources) ''release'' = Some PNone"
proof -
  have 1: "distinct (keys (available_data charm_release_sources))"
    by (simp add: charm_release_sources_def keys_def)
  have 2: "dict_get (available_data charm_release_sources) ''release'' = Some (PStr ''v3.0.0'')"
    by (simp add: charm_release_sources_def dict_get_def)
  have 3: "normalized (dict_get (available_data charm_release_sources) ''storage-release'') = None"
    by (simp add: charm_release_sources_def dict_get_def normalized_def is_empty_value_def)
  from charm_release_overwritten [OF 1 2 3] 2 show ?thesis by simp
qed

section \<open>Properties of the readiness check\<close>

lemma evaluate_loop_all:
  "evaluate_loop cfg ps = None \<longleftrightarrow> (\<forall>p \<in> set ps. truthy (py_get cfg p))"
  by (induction ps) (auto simp: Let_def)

lemma evaluate_loop_first:
  "i < length ps \<Longrightarrow> \<not> truthy (py_get cfg (ps ! i)) \<Longrightarrow>
   \<forall>j < i. truthy (py_get cfg (ps ! j)) \<Longrightarrow>
   evaluate_loop cfg ps = Some (waiting_for (ps ! i))"
proof (induction ps arbitrary: i)
  case Nil
  then show ?case by simp
next
  case (Cons p ps)
  show ?case
  proof (cases i)
    case 0
    with Cons.prems show ?thesis by (simp add: Let_def)
  next
    case (Suc n)
    from Cons.prems Suc have "truthy (py_get cfg p)" by auto
    moreover have "evaluate_loop cfg ps = Some (waiting_for (ps ! n))"
      using Cons.prems Suc by (intro Cons.IH) auto
    ultimately show ?thesis using Suc by (simp add: Let_def)
  qed
qed

text \<open>
  Claim C1. \<^verbatim>\<open>evaluate\<close> checks server, username, password, datacenter and
  control-node-selector in this order: it returns nothing exactly when all five values
  are truthy, and otherwise the message that names the first key whose value is absent
  or falsy, and no other key.
\<close>

theorem evaluate_first_missing:
  "props = [''server'', ''username'', ''password'', ''datacenter'', ''control-node-selector''] \<and>
   (evaluate cfg = None \<longleftrightarrow> (\<forall>p \<in> set props. truthy (py_get cfg p))) \<and>
   (\<forall>i < length props.
      \<not> truthy (py_get cfg (props ! i)) \<and> (\<forall>j < i. truthy (py_get cfg (props ! j))) \<longrightarrow>
      evaluate cfg =
        Some (''Storage manifests waiting for definition of '' @ props ! i))"
  using evaluate_loop_first [of _ props cfg]
  by (auto simp: evaluate_def evaluate_loop_all waiting_for_def) (simp add: props_def)

theorem evaluate_first_missing_witness:
  "evaluate server_absent_config = Some ''Storage manifests waiting for definition of server''"
proof -
  have "\<not> truthy (py_get server_absent_config (props ! 0))"
    by (simp add: props_def server_absent_config_def py_get_def dict_get_def)
  with evaluate_first_missing [of server_absent_config] show ?thesis
    by (auto simp: props_def)
qed

section \<open>Properties of the hash\<close>

lemma distinct_sort_key:
  "distinct (map f (sort_key f xs)) = distinct (map f xs)"
  by (induction xs) (simp_all add: distinct_insort_key)

lemma sorted_keys_unique:
  assumes "distinct (keys d)" and "distinct (keys d')" and "set (keys d) = set (keys d')"
  shows "map fst (sort_key fst d) = map fst (sort_key fst d')"
proof (rule sorted_distinct_set_unique)
  show "sorted (map fst (sort_key fst d))" "sorted (map fst (sort_key fst d'))"
    by simp_all
  show "distinct (map fst (sort_key fst d))" "distinct (map fst (sort_key fst d'))"
    using assms(1,2) by (simp_all add: distinct_sort_key keys_def)
  show "set (map fst (sort_key fst d)) = set (map fst (sort_key fst d'))"
    using assms(3) by (simp add: keys_def)
qed

lemma json_dumps_same_content:
  "same_content a b \<Longrightarrow> distinct_keys a \<Longrightarrow> distinct_keys b \<Longrightarrow> json_dumps a = json_dumps b"
proof (induction a b rule: same_content.induct)
  case (1 d d')
  let ?xs = "sort_key fst d" and ?ys = "sort_key fst d'"
  let ?item = "\<lambda>(k, v). encode_basestring_ascii k @ '': '' @ json_dumps v"
  from "1.prems" have ks: "map fst ?xs = map fst ?ys"
    by (intro sorted_keys_unique) simp_all
  then have len: "length ?xs = length ?ys"
    by (rule map_eq_imp_length_eq)
  have "?item (?xs ! i) = ?item (?ys ! i)" if i: "i < length ?xs" for i
  proof -
    obtain k v where x: "?xs ! i = (k, v)" by (cases "?xs ! i")
    obtain k' v' where y: "?ys ! i = (k', v')" by (cases "?ys ! i")
    from i have "(k, v) \<in> set ?xs" unfolding x [symmetric] by (rule nth_mem)
    then have in_d: "(k, v) \<in> set d" by simp
    from i len have "i < length ?ys" by simp
    then have "(k', v') \<in> set ?ys" unfolding y [symmetric] by (rule nth_mem)
    then have in_d': "(k', v') \<in> set d'" by simp
    from ks i len have "fst (?xs ! i) = fst (?ys ! i)"
      by (metis nth_map)
    then have kk: "k = k'" by (simp add: x y)
    from "1.prems"(1) in_d in_d' kk have sc: "same_content v v'" by auto
    from "1.prems"(2) in_d have dv: "distinct_keys v" by auto
    from "1.prems"(3) in_d' have dv': "distinct_keys v'" by auto
    from "1.IH" [OF in_d refl in_d' refl kk sc dv dv']
    show ?thesis by (simp add: x y kk)
  qed
  with len have "map ?item ?xs = map ?item ?ys"
    by (simp add: list_eq_iff_nth_eq)
  then show ?case by simp
next
  case (2 xs ys)
  from "2.prems"(1) have "list_all2 same_content xs ys" by simp
  then have "list_all2 (\<lambda>x y. json_dumps x = json_dumps y) xs ys"
  proof (rule list.rel_mono_strong)
    fix x y assume "x \<in> set xs" "y \<in> set ys" "same_content x y"
    with "2.IH" "2.prems"(2,3) show "json_dumps x = json_dumps y" by simp
  qed
  then have "map json_dumps xs = map json_dumps ys"
    by (simp add: list_all2_conv_all_nth list_eq_iff_nth_eq)
  then show ?case by simp
qed simp_all

text \<open>
  Claim C2. Two configurations with the same keys and the same values, whatever the order
  of their items at any depth, have the same hash: the text that is hashed is the same.
\<close>

theorem hash_order_independent:
  assumes "distinct_keys (PDict c)" and "distinct_keys (PDict c')"
    and "same_content (PDict c) (PDict c')"
  shows "config_hash md5 c = config_hash md5 c' \<and>
         (config s = c \<and> config s' = c' \<longrightarrow> hash md5 s = hash md5 s')"
  using json_dumps_same_content [OF assms(3,1,2)] by (simp add: config_hash_def hash_def)

lemma config_selector_first_sources:
  "config selector_first_sources =
     [(''control-node-selector'', PDict [(''zone'', PStr ''a''), (''rack'', PInt 7)]),
      (''server'', PStr ''vc.example''), (''release'', PNone)]"
  by (simp add: selector_first_sources_def config_def merged_config_def relation_config_def
      rename_release_def is_empty_value_def dict_del_def py_get_def dict_get_def)

lemma config_server_first_sources:
  "config server_first_sources =
     [(''server'', PStr ''vc.example''),
      (''control-node-selector'', PDict [(''rack'', PInt 7), (''zone'', PStr ''a'')]),
      (''release'', PNone)]"
  by (simp add: server_first_sources_def config_def merged_config_def relation_config_def
      rename_release_def is_empty_value_def dict_del_def py_get_def dict_get_def)

theorem hash_order_independent_witness:
  "config selector_first_sources \<noteq> config server_first_sources \<and>
   hash bytes_number selector_first_sources = hash bytes_number server_first_sources"
proof -
  have 1: "distinct_keys (PDict (config selector_first_sources))"
    by (simp add: config_selector_first_sources keys_def)
  have 2: "distinct_keys (PDict (config server_first_sources))"
    by (simp add: config_server_first_sources keys_def)
  have 3: "same_content (PDict (config selector_first_sources)) (PDict (config server_first_sources))"
    by (simp add: config_selector_first_sources config_server_first_sources keys_def
        insert_commute)
  have "config selector_first_sources \<noteq> config server_first_sources"
    by (simp add: config_selector_first_sources config_server_first_sources)
  with hash_order_independent [OF 1 2 3, of bytes_number selector_first_sources server_first_sources]
  show ?thesis by simp
qed

section \<open>Properties of the patch\<close>

subsection \<open>Reading and storing along a path\<close>

lemma path_set_Cons:
  "ks \<noteq> [] \<Longrightarrow>
   path_set v (k # ks) x =
     (case subscript v k of
        Inl e \<Rightarrow> Inl e
      | Inr c \<Rightarrow> (case path_set c ks x of Inl e \<Rightarrow> Inl e | Inr c' \<Rightarrow> setitem v k c'))"
  by (cases ks) (simp_all cong: sum.case_cong)

lemma setitem_Inr: "setitem v k x = Inr v' \<longleftrightarrow> (\<exists>d. v = PDict d \<and> v' = PDict (dict_set d k x))"
  by (cases v) auto

lemma subscript_Inr: "subscript v k = Inr c \<longleftrightarrow> (\<exists>d. v = PDict d \<and> dict_get d k = Some c)"
  by (cases v) (auto split: option.splits)

lemma subscript_setitem:
  "setitem v k x = Inr v' \<Longrightarrow> subscript v' k' = (if k' = k then Inr x else subscript v k')"
  by (auto simp: setitem_Inr dict_get_set)

text \<open>Reading back what was stored.\<close>

lemma path_get_path_set_same:
  "path_set v ks x = Inr v' \<Longrightarrow> path_get v' ks = Inr x"
proof (induction v ks x arbitrary: v' rule: path_set.induct)
  case (1 v x)
  then show ?case by simp
next
  case (2 v k x)
  then show ?case by (simp add: subscript_setitem)
next
  case (3 v k k' ks x)
  from "3.prems" obtain c c' where c: "subscript v k = Inr c"
    and c': "path_set c (k' # ks) x = Inr c'" and v': "setitem v k c' = Inr v'"
    by (auto split: sum.splits)
  from "3.IH" [OF c c'] have "path_get c' (k' # ks) = Inr x" .
  then show ?case using v' by (simp add: subscript_setitem)
qed

text \<open>A store leaves every path that branches off the stored one as it was.\<close>

lemma path_get_path_set_other:
  "path_set v (p @ a # r) x = Inr v' \<Longrightarrow> a \<noteq> b \<Longrightarrow>
   path_get v' (p @ b # r') = path_get v (p @ b # r')"
proof (induction p arbitrary: v v')
  case Nil
  then show ?case
    by (cases r) (auto simp: subscript_setitem split: sum.splits)
next
  case (Cons k p)
  from Cons.prems(1) obtain c c' where c: "subscript v k = Inr c"
    and c': "path_set c (p @ a # r) x = Inr c'" and v': "setitem v k c' = Inr v'"
    by (auto simp: path_set_Cons split: sum.splits)
  have "path_get c' (p @ b # r') = path_get c (p @ b # r')"
    using Cons.IH [OF c' Cons.prems(2)] .
  then show ?case using c v' by (simp add: subscript_setitem)
qed

text \<open>A store succeeds when the path up to its last key leads to a dictionary.\<close>

lemma path_set_succeeds:
  "path_get v p = Inr (PDict d) \<Longrightarrow> \<exists>v'. path_set v (p @ [k]) x = Inr v'"
proof (induction p arbitrary: v)
  case Nil
  then show ?case by simp
next
  case (Cons a p)
  from Cons.prems obtain c where c: "subscript v a = Inr c" and "path_get c p = Inr (PDict d)"
    by (auto split: sum.splits)
  from Cons.IH [OF this(2)] obtain c' where c': "path_set c (p @ [k]) x = Inr c'" by blast
  from c obtain dv where "v = PDict dv" by (auto simp: subscript_Inr)
  then show ?case using c c' by (simp add: path_set_Cons)
qed

subsection \<open>The controller Deployment\<close>

lemma is_target_dict:
  "is_target (PDict d) = Inr True \<longleftrightarrow>
     dict_get d ''kind'' = Some (PStr ''Deployment'') \<and>
     path_get (PDict d) [''metadata'', ''name''] = Inr (PStr ''vsphere-csi-controller'')"
  by (auto simp: is_target_def py_get_def split: option.splits sum.splits)

lemma update_deployment_not_target:
  "is_target obj \<noteq> Inr True \<Longrightarrow> fst (update_deployment cfg obj) = obj"
  by (auto simp: update_deployment_def split: sum.splits bool.splits)

lemma update_deployment_not_dict:
  "is_target obj = Inr True \<Longrightarrow> \<not> is_dict (py_get cfg ''control-node-selector'') \<Longrightarrow>
   update_deployment cfg obj = (obj, None)"
  by (simp add: update_deployment_def)

lemma update_deployment_selector:
  assumes "is_target obj = Inr True"
    and "is_dict (py_get cfg ''control-node-selector'')"
    and "path_set obj [''spec'', ''template'', ''spec'', ''nodeSelector'']
           (py_get cfg ''control-node-selector'') = Inr obj1"
  shows "update_deployment cfg obj =
     (if \<not> truthy (py_get cfg ''replicas'')
      then (case path_get obj1 [''spec'', ''replicas''] of
              Inl e \<Rightarrow> (obj1, Some e) | Inr r \<Rightarrow> (obj1, None))
      else (case path_set obj1 [''spec'', ''replicas''] (py_get cfg ''replicas'') of
              Inl e \<Rightarrow> (obj1, Some e) | Inr obj2 \<Rightarrow> (obj2, None)))"
  using assms by (simp add: update_deployment_def Let_def)

lemma node_selector_stored:
  assumes "path_get obj [''spec'', ''template'', ''spec''] = Inr (PDict pod)"
  obtains obj1 where
    "path_set obj [''spec'', ''template'', ''spec'', ''nodeSelector''] x = Inr obj1"
    "path_get obj1 [''spec'', ''template'', ''spec'', ''nodeSelector''] = Inr x"
    "path_get obj1 [''spec'', ''replicas''] = path_get obj [''spec'', ''replicas'']"
proof -
  from path_set_succeeds [OF assms, of "''nodeSelector''" x]
  obtain obj1 where 1: "path_set obj [''spec'', ''template'', ''spec'', ''nodeSelector''] x = Inr obj1"
    by auto
  have 2: "path_get obj1 [''spec'', ''template'', ''spec'', ''nodeSelector''] = Inr x"
    by (rule path_get_path_set_same [OF 1])
  have 3: "path_get obj1 [''spec'', ''replicas''] = path_get obj [''spec'', ''replicas'']"
    using path_get_path_set_other
      [of obj "[''spec'']" "''template''" "[''spec'', ''nodeSelector'']" x obj1 "''replicas''" "[]"] 1
    by simp
  from 1 2 3 show thesis by (rule that)
qed

lemma replicas_stored:
  assumes "path_get obj1 [''spec'', ''template'', ''spec'', ''nodeSelector''] = Inr x"
  obtains obj2 where
    "path_set obj1 [''spec'', ''replicas''] r = Inr obj2"
    "path_get obj2 [''spec'', ''replicas''] = Inr r"
    "path_get obj2 [''spec'', ''template'', ''spec'', ''nodeSelector''] = Inr x"
proof -
  from assms obtain c where c: "subscript obj1 ''spec'' = Inr c" and "\<exists>t. subscript c ''template'' = Inr t"
    by (auto split: sum.splits)
  then obtain ds where "path_get obj1 [''spec''] = Inr (PDict ds)"
    by (auto simp: subscript_Inr)
  from path_set_succeeds [OF this, of "''replicas''" r]
  obtain obj2 where 1: "path_set obj1 [''spec'', ''replicas''] r = Inr obj2"
    by auto
  have 2: "path_get obj2 [''spec'', ''replicas''] = Inr r"
    by (rule path_get_path_set_same [OF 1])
  have 3: "path_get obj2 [''spec'', ''template'', ''spec'', ''nodeSelector''] = Inr x"
    using path_get_path_set_other
      [of obj1 "[''spec'']" "''replicas''" "[]" r obj2 "''template''" "[''spec'', ''nodeSelector'']"] 1 assms
    by simp
  from 1 2 3 show thesis by (rule that)
qed

lemma update_deployment_keeps_replicas:
  assumes "\<not> truthy (py_get cfg ''replicas'')"
  shows "path_get (fst (update_deployment cfg obj)) [''spec'', ''replicas''] =
         path_get obj [''spec'', ''replicas'']"
proof (cases "is_target obj = Inr True \<and> is_dict (py_get cfg ''control-node-selector'')")
  case False
  then have "fst (update_deployment cfg obj) = obj"
    using update_deployment_not_target [of obj cfg] update_deployment_not_dict [of obj cfg]
    by (cases "is_target obj = Inr True") simp_all
  then show ?thesis by (simp only:)
next
  case True
  show ?thesis
  proof (cases "path_set obj [''spec'', ''template'', ''spec'', ''nodeSelector'']
                  (py_get cfg ''control-node-selector'')")
    case (Inl e)
    with True show ?thesis by (simp add: update_deployment_def)
  next
    case (Inr obj1)
    have "path_get obj1 [''spec'', ''replicas''] = path_get obj [''spec'', ''replicas'']"
      using path_get_path_set_other
        [of obj "[''spec'']" "''template''" "[''spec'', ''nodeSelector'']" _ obj1 "''replicas''" "[]"] Inr
      by simp
    moreover have "fst (update_deployment cfg obj) = obj1"
      using update_deployment_selector [of obj cfg obj1] True Inr assms
      by (simp split: sum.splits)
    ultimately show ?thesis by simp
  qed
qed

text \<open>
  Claim C7. On the controller Deployment, with a mapping as control-node-selector,
  \<^verbatim>\<open>UpdateDeployment\<close> stores the mapping as
  \<^verbatim>\<open>spec.template.spec.nodeSelector\<close>; a truthy replicas value (such as 3) becomes
  \<^verbatim>\<open>spec.replicas\<close>, and with replicas absent \<^verbatim>\<open>spec.replicas\<close> keeps the value it
  had.
\<close>

theorem update_deployment_applies:
  assumes kind: "dict_get d ''kind'' = Some (PStr ''Deployment'')"
    and name: "path_get (PDict d) [''metadata'', ''name''] = Inr (PStr ''vsphere-csi-controller'')"
    and pod: "path_get (PDict d) [''spec'', ''template'', ''spec''] = Inr (PDict pod)"
    and sel: "dict_get cfg ''control-node-selector'' = Some (PDict m)"
  shows
    "(\<forall>r. dict_get cfg ''replicas'' = Some r \<and> truthy r \<longrightarrow>
        snd (update_deployment cfg (PDict d)) = None \<and>
        path_get (fst (update_deployment cfg (PDict d)))
          [''spec'', ''template'', ''spec'', ''nodeSelector''] = Inr (PDict m) \<and>
        path_get (fst (update_deployment cfg (PDict d))) [''spec'', ''replicas''] = Inr r) \<and>
     (\<forall>old. dict_get cfg ''replicas'' = None \<and>
        path_get (PDict d) [''spec'', ''replicas''] = Inr old \<longrightarrow>
        snd (update_deployment cfg (PDict d)) = None \<and>
        path_get (fst (update_deployment cfg (PDict d)))
          [''spec'', ''template'', ''spec'', ''nodeSelector''] = Inr (PDict m) \<and>
        path_get (fst (update_deployment cfg (PDict d))) [''spec'', ''replicas''] = Inr old)"
proof -
  have target: "is_target (PDict d) = Inr True"
    using kind name by (simp only: is_target_dict)
  have sel': "py_get cfg ''control-node-selector'' = PDict m"
    using sel by (simp add: py_get_def)
  from node_selector_stored [OF pod, of "PDict m"] obtain obj1 where
    obj1: "path_set (PDict d) [''spec'', ''template'', ''spec'', ''nodeSelector''] (PDict m) = Inr obj1"
    and ns1: "path_get obj1 [''spec'', ''template'', ''spec'', ''nodeSelector''] = Inr (PDict m)"
    and r1: "path_get obj1 [''spec'', ''replicas''] = path_get (PDict d) [''spec'', ''replicas'']"
    by blast
  have unfolded: "update_deployment cfg (PDict d) =
     (if \<not> truthy (py_get cfg ''replicas'')
      then (case path_get obj1 [''spec'', ''replicas''] of
              Inl e \<Rightarrow> (obj1, Some e) | Inr r \<Rightarrow> (obj1, None))
      else (case path_set obj1 [''spec'', ''replicas''] (py_get cfg ''replicas'') of
              Inl e \<Rightarrow> (obj1, Some e) | Inr obj2 \<Rightarrow> (obj2, None)))"
    using update_deployment_selector [OF target, of cfg obj1] obj1 by (simp add: sel')
  have set_case: "snd (update_deployment cfg (PDict d)) = None \<and>
        path_get (fst (update_deployment cfg (PDict d)))
          [''spec'', ''template'', ''spec'', ''nodeSelector''] = Inr (PDict m) \<and>
        path_get (fst (update_deployment cfg (PDict d))) [''spec'', ''replicas''] = Inr r"
    if "dict_get cfg ''replicas'' = Some r" "truthy r" for r
  proof -
    from replicas_stored [OF ns1, of r] obtain obj2 where
      "path_set obj1 [''spec'', ''replicas''] r = Inr obj2"
      "path_get obj2 [''spec'', ''replicas''] = Inr r"
      "path_get obj2 [''spec'', ''template'', ''spec'', ''nodeSelector''] = Inr (PDict m)"
      by blast
    moreover have "py_get cfg ''replicas'' = r" using that by (simp add: py_get_def)
    ultimately show ?thesis using that(2) by (simp only: unfolded) simp
  qed
  have keep_case: "snd (update_deployment cfg (PDict d)) = None \<and>
        path_get (fst (update_deployment cfg (PDict d)))
          [''spec'', ''template'', ''spec'', ''nodeSelector''] = Inr (PDict m) \<and>
        path_get (fst (update_deployment cfg (PDict d))) [''spec'', ''replicas''] = Inr old"
    if "dict_get cfg ''replicas'' = None" "path_get (PDict d) [''spec'', ''replicas''] = Inr old" for old
  proof -
    have "py_get cfg ''replicas'' = PNone" using that by (simp add: py_get_def)
    moreover have "path_get obj1 [''spec'', ''replicas''] = Inr old" using r1 that by simp
    ultimately show ?thesis using ns1 by (simp only: unfolded) simp
  qed
  from set_case keep_case show ?thesis by blast
qed

theorem update_deployment_applies_witness:
  "path_get (fst (update_deployment selector_and_replicas_config controller_deployment))
     [''spec'', ''template'', ''spec'', ''nodeSelector''] =
     Inr (PDict [(''juju-application'', PStr ''app1'')]) \<and>
   path_get (fst (update_deployment selector_and_replicas_config controller_deployment))
     [''spec'', ''replicas''] = Inr (PInt 3) \<and>
   path_get (fst (update_deployment selector_only_config controller_deployment))
     [''spec'', ''replicas''] = Inr (PInt 1)"
proof -
  obtain d where d: "controller_deployment = PDict d"
    by (simp add: controller_deployment_def)
  have kind: "dict_get d ''kind'' = Some (PStr ''Deployment'')"
    using d by (auto simp: controller_deployment_def dict_get_def)
  have name: "path_get (PDict d) [''metadata'', ''name''] = Inr (PStr ''vsphere-csi-controller'')"
    unfolding d [symmetric] by (simp add: controller_deployment_def dict_get_def)
  have pod: "path_get (PDict d) [''spec'', ''template'', ''spec''] = Inr (PDict [(''containers'', PList [])])"
    unfolding d [symmetric] by (simp add: controller_deployment_def dict_get_def)
  have old: "path_get (PDict d) [''spec'', ''replicas''] = Inr (PInt 1)"
    unfolding d [symmetric] by (simp add: controller_deployment_def dict_get_def)
  have sel3: "dict_get selector_and_replicas_config ''control-node-selector'' =
      Some (PDict [(''juju-application'', PStr ''app1'')])"
    and rep3: "dict_get selector_and_replicas_config ''replicas'' = Some (PInt 3)"
    by (simp_all add: selector_and_replicas_config_def dict_get_def)
  have sel0: "dict_get selector_only_config ''control-node-selector'' =
      Some (PDict [(''juju-application'', PStr ''app1'')])"
    and rep0: "dict_get selector_only_config ''replicas'' = None"
    by (simp_all add: selector_only_config_def dict_get_def)
  from update_deployment_applies [OF kind name pod sel3] rep3
  have "path_get (fst (update_deployment selector_and_replicas_config (PDict d)))
          [''spec'', ''template'', ''spec'', ''nodeSelector''] =
          Inr (PDict [(''juju-application'', PStr ''app1'')]) \<and>
        path_get (fst (update_deployment selector_and_replicas_config (PDict d)))
          [''spec'', ''replicas''] = Inr (PInt 3)"
    by simp
  moreover from update_deployment_applies [OF kind name pod sel0] rep0 old
  have "path_get (fst (update_deployment selector_only_config (PDict d)))
          [''spec'', ''replicas''] = Inr (PInt 1)"
    by blast
  ultimately show ?thesis by (simp only: d) 
qed

text \<open>
  Claim C8. An object that is not the controller Deployment is left as it is, for every
  configuration: the call returns without an exception when the kind is not
  \<^verbatim>\<open>"Deployment"\<close>, and when \<^verbatim>\<open>metadata.name\<close> is another name.
\<close>

theorem update_deployment_other_objects:
  "(is_target obj \<noteq> Inr True \<longrightarrow> fst (update_deployment cfg obj) = obj) \<and>
   (dict_get d ''kind'' \<noteq> Some (PStr ''Deployment'') \<longrightarrow>
      update_deployment cfg (PDict d) = (PDict d, None)) \<and>
   (\<forall>n. path_get (PDict d) [''metadata'', ''name''] = Inr n \<and> n \<noteq> PStr ''vsphere-csi-controller'' \<longrightarrow>
      update_deployment cfg (PDict d) = (PDict d, None))"
  by (auto simp: update_deployment_not_target)
     (auto simp: update_deployment_def is_target_def py_get_def split: option.splits sum.splits)

theorem update_deployment_other_objects_witness:
  "update_deployment selector_and_replicas_config service_object = (service_object, None)"
  using update_deployment_other_objects [where cfg = selector_and_replicas_config]
  by (simp add: service_object_def dict_get_def)

text \<open>
  Claim C6 fails as stated: with replicas 3 and a control-node-selector that is a string,
  the controller Deployment keeps its replicas of 1, where a mapping would have made it 3.
\<close>

theorem malformed_selector_blocks_replicas:
  "is_target controller_deployment = Inr True \<and>
   py_get malformed_selector_config ''replicas'' = PInt 3 \<and>
   \<not> is_dict (py_get malformed_selector_config ''control-node-selector'') \<and>
   path_get (fst (update_deployment malformed_selector_config controller_deployment))
     [''spec'', ''replicas''] = Inr (PInt 1) \<and>
   path_get (fst (update_deployment selector_and_replicas_config controller_deployment))
     [''spec'', ''replicas''] = Inr (PInt 3)"
  by (simp add: example_defs update_deployment_def is_target_def py_get_def dict_get_def)

text \<open>
  Claim C6, as the code has it. On the controller Deployment, a falsy or absent replicas
  value does not keep the node selector from being stored; a control-node-selector that
  is not a mapping makes the call return with the object as it was, so it does keep the
  replicas from being stored.
\<close>

theorem update_deployment_selector_guard:
  assumes kind: "dict_get d ''kind'' = Some (PStr ''Deployment'')"
    and name: "path_get (PDict d) [''metadata'', ''name''] = Inr (PStr ''vsphere-csi-controller'')"
  shows
    "(\<forall>m pod. dict_get cfg ''control-node-selector'' = Some (PDict m) \<and>
        path_get (PDict d) [''spec'', ''template'', ''spec''] = Inr (PDict pod) \<and>
        \<not> truthy (py_get cfg ''replicas'') \<longrightarrow>
        path_get (fst (update_deployment cfg (PDict d)))
          [''spec'', ''template'', ''spec'', ''nodeSelector''] = Inr (PDict m)) \<and>
     (\<not> is_dict (py_get cfg ''control-node-selector'') \<longrightarrow>
        update_deployment cfg (PDict d) = (PDict d, None))"
proof -
  have target: "is_target (PDict d) = Inr True"
    using kind name by (simp only: is_target_dict)
  have "path_get (fst (update_deployment cfg (PDict d)))
          [''spec'', ''template'', ''spec'', ''nodeSelector''] = Inr (PDict m)"
    if sel: "dict_get cfg ''control-node-selector'' = Some (PDict m)"
      and pod: "path_get (PDict d) [''spec'', ''template'', ''spec''] = Inr (PDict pod)"
      and falsy: "\<not> truthy (py_get cfg ''replicas'')" for m pod
  proof -
    have sel': "py_get cfg ''control-node-selector'' = PDict m"
      using sel by (simp add: py_get_def)
    from node_selector_stored [OF pod, of "PDict m"] obtain obj1 where
      obj1: "path_set (PDict d) [''spec'', ''template'', ''spec'', ''nodeSelector''] (PDict m) = Inr obj1"
      and ns1: "path_get obj1 [''spec'', ''template'', ''spec'', ''nodeSelector''] = Inr (PDict m)"
      by blast
    have "fst (update_deployment cfg (PDict d)) = obj1"
      using update_deployment_selector [OF target, of cfg obj1] obj1 falsy
      by (simp add: sel' split: sum.splits)
    with ns1 show ?thesis by simp
  qed
  moreover have "update_deployment cfg (PDict d) = (PDict d, None)"
    if "\<not> is_dict (py_get cfg ''control-node-selector'')"
    using update_deployment_not_dict [OF target that] .
  ultimately show ?thesis by blast
qed

theorem update_deployment_selector_guard_witness:
  "path_get (fst (update_deployment no_replicas_config controller_deployment))
     [''spec'', ''template'', ''spec'', ''nodeSelector''] =
     Inr (PDict [(''juju-application'', PStr ''app1'')]) \<and>
   update_deployment malformed_selector_config controller_deployment = (controller_deployment, None)"
proof -
  obtain d where d: "controller_deployment = PDict d"
    by (simp add: controller_deployment_def)
  have kind: "dict_get d ''kind'' = Some (PStr ''Deployment'')"
    using d by (auto simp: controller_deployment_def dict_get_def)
  have name: "path_get (PDict d) [''metadata'', ''name''] = Inr (PStr ''vsphere-csi-controller'')"
    unfolding d [symmetric] by (simp add: controller_deployment_def dict_get_def)
  have pod: "path_get (PDict d) [''spec'', ''template'', ''spec''] = Inr (PDict [(''containers'', PList [])])"
    unfolding d [symmetric] by (simp add: controller_deployment_def dict_get_def)
  have sel: "dict_get no_replicas_config ''control-node-selector'' =
      Some (PDict [(''juju-application'', PStr ''app1'')])"
    and rep: "\<not> truthy (py_get no_replicas_config ''replicas'')"
    by (simp_all add: no_replicas_config_def dict_get_def py_get_def)
  have bad: "\<not> is_dict (py_get malformed_selector_config ''control-node-selector'')"
    by (simp add: malformed_selector_config_def dict_get_def py_get_def)
  from update_deployment_selector_guard [OF kind name, of no_replicas_config] sel pod rep
  have "path_get (fst (update_deployment no_replicas_config (PDict d)))
          [''spec'', ''template'', ''spec'', ''nodeSelector''] =
          Inr (PDict [(''juju-application'', PStr ''app1'')])"
    by blast
  moreover from update_deployment_selector_guard [OF kind name, of malformed_selector_config] bad
  have "update_deployment malformed_selector_config (PDict d) = (PDict d, None)"
    by blast
  ultimately show ?thesis by (simp only: d)
qed

subsection \<open>A control plane without units\<close>

lemma config_charm_replicas_sources:
  "config charm_replicas_sources =
     [(''control-node-selector'', PDict [(''juju-application'', PStr ''kubernetes-control-plane'')]),
      (''replicas'', PInt 2), (''release'', PNone)]"
  by (simp add: charm_replicas_sources_def config_def merged_config_def relation_config_def
      rename_release_def is_empty_value_def dict_del_def py_get_def dict_get_def)

text \<open>
  Claim C10 fails as stated: the charm's data is laid over the relation's values, so with
  a control plane of no units and \<^verbatim>\<open>replicas\<close> set to 2 by the charm, the effective
  configuration holds 2 and the patch stores it.
\<close>

theorem charm_replicas_override_zero_units:
  "map_option units (src_control_plane charm_replicas_sources) = Some [] \<and>
   dict_get (config charm_replicas_sources) ''replicas'' = Some (PInt 2) \<and>
   path_get controller_deployment [''spec'', ''replicas''] = Inr (PInt 1) \<and>
   path_get (fst (update_deployment (config charm_replicas_sources) controller_deployment))
     [''spec'', ''replicas''] = Inr (PInt 2)"
  by (simp add: config_charm_replicas_sources)
     (simp add: charm_replicas_sources_def controller_deployment_def update_deployment_def
       is_target_def py_get_def dict_get_def)

text \<open>
  Claim C10, as the code has it. With a control-plane relation of no units, and no
  \<^verbatim>\<open>replicas\<close> key in the charm's data, the effective configuration holds the integer
  0 for \<^verbatim>\<open>replicas\<close>, and the patch leaves \<^verbatim>\<open>spec.replicas\<close> of every object as it
  was.
\<close>

theorem zero_units_keep_replicas:
  assumes "src_control_plane s = Some cp" and "units cp = []"
    and "dict_get (available_data s) ''replicas'' = None"
  shows "dict_get (config s) ''replicas'' = Some (PInt 0) \<and>
         (\<forall>obj. path_get (fst (update_deployment (config s) obj)) [''spec'', ''replicas''] =
                path_get obj [''spec'', ''replicas''])"
proof -
  have "dict_get (relation_config s) ''replicas'' = Some (PInt 0)"
    using assms(1,2) by (simp add: relation_config_def Let_def dict_get_set)
  then have "dict_get (merged_config s) ''replicas'' = Some (PInt 0)"
    using assms(3) by (simp add: merged_config_def dict_get_update_absent dict_get_absent)
  then have cfg: "dict_get (config s) ''replicas'' = Some (PInt 0)"
    by (simp add: dict_get_config normalized_def is_empty_value_def)
  then have "\<not> truthy (py_get (config s) ''replicas'')"
    by (simp add: py_get_def)
  from update_deployment_keeps_replicas [OF this] cfg show ?thesis by blast
qed

theorem zero_units_keep_replicas_witness:
  "dict_get (config zero_units_sources) ''replicas'' = Some (PInt 0) \<and>
   path_get (fst (update_deployment (config zero_units_sources) controller_deployment))
     [''spec'', ''replicas''] = Inr (PInt 1)"
proof -
  have 1: "src_control_plane zero_units_sources =
      Some \<lparr>app_name = ''kubernetes-control-plane'', units = []\<rparr>"
    by (simp add: zero_units_sources_def)
  have 2: "units \<lparr>app_name = ''kubernetes-control-plane'', units = []\<rparr> = []"
    by simp
  have 3: "dict_get (available_data zero_units_sources) ''replicas'' = None"
    by (simp add: zero_units_sources_def dict_get_def)
  have "path_get controller_deployment [''spec'', ''replicas''] = Inr (PInt 1)"
    by (simp add: controller_deployment_def dict_get_def)
  with zero_units_keep_replicas [OF 1 2 3] show ?thesis by simp
qed

section \<open>Properties of the secret\<close>

text \<open>
  Claim C4. When one of server, username, password and datacenter is absent from the
  configuration, \<^verbatim>\<open>CreateSecret\<close> returns no object.
\<close>

theorem create_secret_absent:
  "k \<in> {''server'', ''username'', ''password'', ''datacenter''} \<Longrightarrow> dict_get cfg k = None \<Longrightarrow>
   create_secret repr model_uuid cfg = None"
  by (auto simp: create_secret_def py_get_def)

theorem create_secret_absent_witness:
  "create_secret (\<lambda>v. []) ''uuid'' server_absent_config = None"
  by (rule create_secret_absent [of "''server''"]) (simp_all add: server_absent_config_def dict_get_def)

subsection \<open>Decoding\<close>














subsection \<open>The text of the secret\<close>








end
